theory Spec2Isabelle
  imports Main
begin

section \<open>The entity details component of the translation workbench\<close>

text \<open>
  A shallow embedding of the class \<open>EntityDetailsBase\<close> of
  \<open>frontend/src/modules/entitydetails/components/EntityDetails.js\<close>: its two lifecycle
  methods, the two refresh routines they call, the machinery search handler and the four
  handlers that go through the unsaved-changes check.

  The component has no state of its own that these methods touch. Everything they do is
  read \<open>this.props\<close> and call \<open>dispatch\<close>, so a method is modelled as a function from the
  props to its outcome: the exception it raised, or the list of actions it dispatched, in
  order.
\<close>

subsection \<open>JavaScript values\<close>

text \<open>
  An object-valued prop is a reference: \<open>undefined\<close>, \<open>null\<close>, or an object with an
  identity (its address) and its contents. The operators \<open>===\<close> and \<open>!==\<close> on such props
  compare identities, never contents, and \<open>!x\<close> holds of \<open>undefined\<close> and \<open>null\<close> only.
\<close>

datatype 'a reference = Undefined | Null | Ref nat 'a

fun is_object :: "'a reference \<Rightarrow> bool" where
  "is_object (Ref a x) = True"
| "is_object _ = False"

fun strict_eq :: "'a reference \<Rightarrow> 'a reference \<Rightarrow> bool" where
  "strict_eq Undefined Undefined = True"
| "strict_eq Null Null = True"
| "strict_eq (Ref a x) (Ref b y) = (a = b)"
| "strict_eq _ _ = False"

text \<open>
  A number that may be missing: \<open>None\<close> stands for \<open>undefined\<close> or \<open>null\<close>. As a condition
  it is false when missing and when zero.
\<close>

fun truthy_number :: "int option \<Rightarrow> bool" where
  "truthy_number None = False"
| "truthy_number (Some n) = (n \<noteq> 0)"

text \<open>
  Reading an array at a number: an index outside the array (negative ones included) gives
  \<open>undefined\<close>, here \<open>None\<close>; nothing is raised.
\<close>

definition js_index :: "'a list \<Rightarrow> int \<Rightarrow> 'a option" where
  "js_index xs i = (if 0 \<le> i \<and> nat i < length xs then Some (xs ! nat i) else None)"

text \<open>\<open>Number.prototype.toString\<close> on an integer: decimal digits, with a sign when negative.\<close>

definition digit_char :: "nat \<Rightarrow> char" where
  "digit_char d = ''0123456789'' ! d"

fun nat_toString :: "nat \<Rightarrow> string" where
  "nat_toString n =
     (if n < 10 then [digit_char n] else nat_toString (n div 10) @ [digit_char (n mod 10)])"

declare nat_toString.simps [simp del]

definition toString :: "int \<Rightarrow> string" where
  "toString i = (if i < 0 then CHR ''-'' # nat_toString (nat (- i)) else nat_toString (nat i))"

text \<open>
  The only exception these methods can raise: reading a property of \<open>undefined\<close> or
  \<open>null\<close>.
\<close>

datatype js_error = TypeError

text \<open>
  Reading a property of the object behind a reference. A method returns \<open>Inl\<close> of the
  exception, or \<open>Inr\<close> of what it did.
\<close>

fun deref :: "'a reference \<Rightarrow> js_error + 'a" where
  "deref (Ref a x) = Inr x"
| "deref _ = Inl TypeError"

subsection \<open>The data the component reads\<close>

text \<open>
  The fields of each type are those the component reads; the types themselves are
  declared in other modules.
\<close>

record EntityTranslation =
  approved :: bool
  fuzzy :: bool
  errors :: "string list"
  warnings :: "string list"

record Entity =
  pk :: int
  original :: string
  machinery_original :: string
  format :: string
  translation :: "EntityTranslation list"

record NavigationParams =
  locale' :: string
  project :: string
  resource :: string
  entity :: "int option"

record HistoryState =
  entity :: "int option"
  pluralForm :: "int option"

record LocalesState =
  entity :: "int option"

record MachineryState =
  entity :: "int option"

text \<open>
  The props. The editor state, the locale, the router, the unsaved-changes state and the
  user state are objects the component hands on without looking inside, so their types
  are parameters. The locale may be missing (\<open>None\<close>); its field is
  written \<open>locale'\<close>.
\<close>

record ('e, 'l, 'r, 'u, 'w) Props =
  activeTranslationString :: string
  editor :: 'e
  history :: HistoryState
  isReadOnlyEditor :: bool
  isTranslator :: bool
  locale' :: "'l option"
  machinery :: MachineryState
  nextEntity :: "Entity reference"
  previousEntity :: "Entity reference"
  otherlocales :: LocalesState
  parameters :: NavigationParams
  pluralForm :: int
  router :: 'r
  selectedEntity :: "Entity reference"
  unsavedchanges :: 'u
  user :: 'w

subsection \<open>Actions\<close>

record FailedChecks =
  clErrors :: "string list"
  clWarnings :: "string list"
  pErrors :: "string list"
  pndbWarnings :: "string list"
  ttWarnings :: "string list"

text \<open>
  What is handed to \<open>dispatch\<close> is the result of an action creator of another module; an
  action is modelled as the creator that was called and its arguments. The second
  argument of \<open>unsavedchanges.actions.check\<close> is a callback: it is represented by what
  running it does, either raise or dispatch a list of actions.
\<close>

datatype ('l, 'r, 'u) action =
  editor_actions_updateFailedChecks FailedChecks string
| editor_actions_resetFailedChecks
| history_actions_request "int option" int
| history_actions_get "int option" string int
| history_actions_updateStatus string "Entity reference" "'l option" string int int
    "Entity reference" 'r
| otherlocales_actions_get "int option" string
| machinery_actions_get string "'l option" "int option"
| navigation_actions_updateEntity 'r string
| push string
| unsavedchanges_actions_check 'u "js_error + ('l, 'r, 'u) action list"

datatype routine = UpdateFailedChecks | FetchHelpersData

type_synonym ('l, 'r, 'u) outcome = "js_error + ('l, 'r, 'u) action list"

subsection \<open>The refresh routines\<close>

text \<open>
  Lines 133 and 134 of \<open>updateFailedChecks\<close>: the translation record of the active plural
  form, \<open>-1\<close> meaning that the entity has no plural forms.
\<close>

definition activeTranslation :: "int \<Rightarrow> Entity \<Rightarrow> EntityTranslation option" where
  "activeTranslation pluralForm' selectedEntity' =
     (let plural = (if pluralForm' = - 1 then 0 else pluralForm')
      in js_index (translation selectedEntity') plural)"

definition updateFailedChecks :: "('e, 'l, 'r, 'u, 'w) Props \<Rightarrow> ('l, 'r, 'u) outcome" where
  "updateFailedChecks props =
     (if \<not> is_object (selectedEntity props) then Inr []
      else
        case deref (selectedEntity props) of
          Inl exn \<Rightarrow> Inl exn
        | Inr selectedEntity' \<Rightarrow>
            (case activeTranslation (pluralForm props) selectedEntity' of
               None \<Rightarrow> Inr [editor_actions_resetFailedChecks]
             | Some translation' \<Rightarrow>
                 if (errors translation' \<noteq> [] \<or> warnings translation' \<noteq> []) \<and>
                    (approved translation' \<or> fuzzy translation')
                 then Inr [editor_actions_updateFailedChecks
                             \<lparr> clErrors = errors translation',
                               clWarnings = warnings translation',
                               pErrors = [],
                               pndbWarnings = [],
                               ttWarnings = [] \<rparr>
                             ''stored'']
                 else Inr [editor_actions_resetFailedChecks]))"

text \<open>
  \<open>utils.getOptimizedContent\<close> belongs to another module and is a parameter of the
  routine that calls it.
\<close>

definition fetchHelpersData ::
  "(string \<Rightarrow> string \<Rightarrow> string) \<Rightarrow> ('e, 'l, 'r, 'u, 'w) Props \<Rightarrow> ('l, 'r, 'u) outcome" where
  "fetchHelpersData getOptimizedContent props =
     (if \<not> truthy_number (NavigationParams.entity (parameters props)) \<or>
         \<not> is_object (selectedEntity props) \<or> locale' props = None
      then Inr []
      else
        case deref (selectedEntity props) of
          Inl exn \<Rightarrow> Inl exn
        | Inr selectedEntity' \<Rightarrow>
            Inr
             ((if Some (pk selectedEntity') \<noteq> HistoryState.entity (history props) \<or>
                  Some (pluralForm props) \<noteq> HistoryState.pluralForm (history props) \<or>
                  strict_eq (selectedEntity props) (nextEntity props)
               then [history_actions_request
                       (NavigationParams.entity (parameters props)) (pluralForm props),
                     history_actions_get
                       (NavigationParams.entity (parameters props))
                       (NavigationParams.locale' (parameters props)) (pluralForm props)]
               else []) @
              (if Some (pk selectedEntity') \<noteq> LocalesState.entity (otherlocales props)
               then [otherlocales_actions_get
                       (NavigationParams.entity (parameters props))
                       (NavigationParams.locale' (parameters props))]
               else []) @
              (if Some (pk selectedEntity') \<noteq> MachineryState.entity (machinery props)
               then [machinery_actions_get
                       (getOptimizedContent (machinery_original selectedEntity')
                          (format selectedEntity'))
                       (locale' props) (Some (pk selectedEntity'))]
               else [])))"

subsection \<open>The lifecycle methods\<close>

text \<open>
  A lifecycle method is modelled by the routines it ran, in order, each with its outcome.
  A routine that raises ends the method, so the routine after it does not run.
\<close>

definition componentDidMount ::
  "(string \<Rightarrow> string \<Rightarrow> string) \<Rightarrow> ('e, 'l, 'r, 'u, 'w) Props \<Rightarrow>
   (routine \<times> ('l, 'r, 'u) outcome) list" where
  "componentDidMount getOptimizedContent props =
     (case updateFailedChecks props of
        Inl exn \<Rightarrow> [(UpdateFailedChecks, Inl exn)]
      | Inr actions \<Rightarrow>
          [(UpdateFailedChecks, Inr actions),
           (FetchHelpersData, fetchHelpersData getOptimizedContent props)])"

definition componentDidUpdate ::
  "(string \<Rightarrow> string \<Rightarrow> string) \<Rightarrow> ('e, 'l, 'r, 'u, 'w) Props \<Rightarrow>
   ('e, 'l, 'r, 'u, 'w) Props \<Rightarrow> (routine \<times> ('l, 'r, 'u) outcome) list" where
  "componentDidUpdate getOptimizedContent prevProps props =
     (if pluralForm props \<noteq> pluralForm prevProps \<or>
         \<not> strict_eq (selectedEntity props) (selectedEntity prevProps) \<or>
         (strict_eq (selectedEntity props) (nextEntity props) \<and>
          activeTranslationString props \<noteq> activeTranslationString prevProps)
      then
        case updateFailedChecks props of
          Inl exn \<Rightarrow> [(UpdateFailedChecks, Inl exn)]
        | Inr actions \<Rightarrow>
            [(UpdateFailedChecks, Inr actions),
             (FetchHelpersData, fetchHelpersData getOptimizedContent props)]
      else [])"

subsection \<open>The handlers\<close>

definition searchMachinery :: "('e, 'l, 'r, 'u, 'w) Props \<Rightarrow> string \<Rightarrow> ('l, 'r, 'u) outcome" where
  "searchMachinery props query =
     (if is_object (selectedEntity props) \<and> length query = 0
      then
        case deref (selectedEntity props) of
          Inl exn \<Rightarrow> Inl exn
        | Inr selectedEntity' \<Rightarrow>
            Inr [machinery_actions_get (original selectedEntity') (locale' props)
                   (Some (pk selectedEntity'))]
      else Inr [machinery_actions_get query (locale' props) None])"

text \<open>
  The callbacks of \<open>goToNextEntity\<close> and \<open>goToPreviousEntity\<close> read \<open>pk\<close> of the neighbour
  when they run, not when the handler runs.
\<close>

definition updateEntityCallback :: "'r \<Rightarrow> Entity reference \<Rightarrow> ('l, 'r, 'u) outcome" where
  "updateEntityCallback router' target =
     (case deref target of
        Inl exn \<Rightarrow> Inl exn
      | Inr entity' \<Rightarrow> Inr [navigation_actions_updateEntity router' (toString (pk entity'))])"

definition goToNextEntity :: "('e, 'l, 'r, 'u, 'w) Props \<Rightarrow> ('l, 'r, 'u) outcome" where
  "goToNextEntity props =
     Inr [unsavedchanges_actions_check (unsavedchanges props)
            (updateEntityCallback (router props) (nextEntity props))]"

definition goToPreviousEntity :: "('e, 'l, 'r, 'u, 'w) Props \<Rightarrow> ('l, 'r, 'u) outcome" where
  "goToPreviousEntity props =
     Inr [unsavedchanges_actions_check (unsavedchanges props)
            (updateEntityCallback (router props) (previousEntity props))]"

definition navigateToPath :: "('e, 'l, 'r, 'u, 'w) Props \<Rightarrow> string \<Rightarrow> ('l, 'r, 'u) outcome" where
  "navigateToPath props path =
     Inr [unsavedchanges_actions_check (unsavedchanges props) (Inr [push path])]"

definition updateTranslationStatus ::
  "('e, 'l, 'r, 'u, 'w) Props \<Rightarrow> int \<Rightarrow> string \<Rightarrow> ('l, 'r, 'u) outcome" where
  "updateTranslationStatus props translationId change =
     Inr [unsavedchanges_actions_check (unsavedchanges props)
            (Inr [history_actions_updateStatus change (selectedEntity props) (locale' props)
                    (NavigationParams.resource (parameters props)) (pluralForm props)
                    translationId (nextEntity props) (router props)])]"

subsection \<open>Sample props\<close>

text \<open>
  An entity with two plural forms, the first fuzzy with one error, the second a plain
  draft with one error; and its successor in the list, which has no translation yet.
\<close>

definition fuzzyTranslation :: EntityTranslation where
  "fuzzyTranslation =
     \<lparr> approved = False, fuzzy = True, errors = [''Error1''], warnings = [] \<rparr>"

definition draftTranslation :: EntityTranslation where
  "draftTranslation =
     \<lparr> approved = False, fuzzy = False, errors = [''Error1''], warnings = [] \<rparr>"

definition entity42 :: Entity where
  "entity42 =
     \<lparr> pk = 42, original = ''le test'', machinery_original = ''le test'', format = ''po'',
       translation = [fuzzyTranslation, draftTranslation] \<rparr>"

definition entity43 :: Entity where
  "entity43 =
     \<lparr> pk = 43, original = ''something'', machinery_original = ''something'',
       format = ''po'', translation = [] \<rparr>"

text \<open>
  The locale is given by its code, the router by its path, the unsaved-changes state by
  whether changes exist. All three auxiliary slices are up to date with entity 42.
\<close>

definition sampleProps :: "(unit, string, string, bool, unit) Props" where
  "sampleProps =
     \<lparr> activeTranslationString = ''test'',
       editor = (),
       history = \<lparr> HistoryState.entity = Some 42, pluralForm = Some 0 \<rparr>,
       isReadOnlyEditor = False,
       isTranslator = True,
       locale' = Some ''kg'',
       machinery = \<lparr> MachineryState.entity = Some 42 \<rparr>,
       nextEntity = Ref 2 entity43,
       previousEntity = Ref 2 entity43,
       otherlocales = \<lparr> LocalesState.entity = Some 42 \<rparr>,
       parameters =
         \<lparr> NavigationParams.locale' = ''kg'', project = ''pro'', resource = ''all'',
           NavigationParams.entity = Some 42 \<rparr>,
       pluralForm = 0,
       router = ''/kg/pro/all/'',
       selectedEntity = Ref 1 entity42,
       unsavedchanges = True,
       user = () \<rparr>"

text \<open>The source text is handed to the machinery as it is.\<close>

definition plainContent :: "string \<Rightarrow> string \<Rightarrow> string" where
  "plainContent source fmt = source"

section \<open>Properties\<close>

subsection \<open>Basic facts\<close>

lemma strict_eq_same: "strict_eq r r"
  by (cases r) simp_all

lemma updateFailedChecks_selected:
  assumes "selectedEntity props = Ref a e"
  shows "updateFailedChecks props =
    (case activeTranslation (pluralForm props) e of
       None \<Rightarrow> Inr [editor_actions_resetFailedChecks]
     | Some t \<Rightarrow>
         if (errors t \<noteq> [] \<or> warnings t \<noteq> []) \<and> (approved t \<or> fuzzy t)
         then Inr [editor_actions_updateFailedChecks
                \<lparr> clErrors = errors t, clWarnings = warnings t, pErrors = [],
                  pndbWarnings = [], ttWarnings = [] \<rparr> ''stored'']
         else Inr [editor_actions_resetFailedChecks])"
  using assms by (simp add: updateFailedChecks_def)

lemma updateFailedChecks_unselected:
  assumes "\<not> is_object (selectedEntity props)"
  shows "updateFailedChecks props = Inr []"
  using assms by (simp add: updateFailedChecks_def)

lemma updateFailedChecks_returns: "\<exists>actions. updateFailedChecks props = Inr actions"
proof (cases "selectedEntity props")
  case (Ref a e)
  then show ?thesis
    by (simp add: updateFailedChecks_selected split: option.split)
qed (simp_all add: updateFailedChecks_unselected)

lemma componentDidMount_runs_both:
  "componentDidMount g props =
     [(UpdateFailedChecks, updateFailedChecks props), (FetchHelpersData, fetchHelpersData g props)]"
proof -
  obtain actions where "updateFailedChecks props = Inr actions"
    using updateFailedChecks_returns by blast
  then show ?thesis by (simp add: componentDidMount_def)
qed

lemma componentDidUpdate_cases:
  "componentDidUpdate g prevProps props =
     (if pluralForm props \<noteq> pluralForm prevProps \<or>
         \<not> strict_eq (selectedEntity props) (selectedEntity prevProps) \<or>
         (strict_eq (selectedEntity props) (nextEntity props) \<and>
          activeTranslationString props \<noteq> activeTranslationString prevProps)
      then [(UpdateFailedChecks, updateFailedChecks props),
            (FetchHelpersData, fetchHelpersData g props)]
      else [])"
proof -
  obtain actions where "updateFailedChecks props = Inr actions"
    using updateFailedChecks_returns by blast
  then show ?thesis by (simp add: componentDidUpdate_def)
qed

lemma fetchHelpersData_ready:
  assumes "truthy_number (NavigationParams.entity (parameters props))"
    and "selectedEntity props = Ref a e"
    and "locale' props = Some l"
  shows "fetchHelpersData g props =
    Inr ((if Some (pk e) \<noteq> HistoryState.entity (history props) \<or>
             Some (pluralForm props) \<noteq> HistoryState.pluralForm (history props) \<or>
             strict_eq (selectedEntity props) (nextEntity props)
          then [history_actions_request (NavigationParams.entity (parameters props)) (pluralForm props),
                history_actions_get (NavigationParams.entity (parameters props))
                  (NavigationParams.locale' (parameters props)) (pluralForm props)]
          else []) @
         (if Some (pk e) \<noteq> LocalesState.entity (otherlocales props)
          then [otherlocales_actions_get (NavigationParams.entity (parameters props))
                  (NavigationParams.locale' (parameters props))]
          else []) @
         (if Some (pk e) \<noteq> MachineryState.entity (machinery props)
          then [machinery_actions_get (g (machinery_original e) (format e)) (Some l) (Some (pk e))]
          else []))"
  using assms by (simp add: fetchHelpersData_def)

lemma updateEntityCallback_cases:
  "updateEntityCallback r target =
     (case target of
        Ref a e \<Rightarrow> Inr [navigation_actions_updateEntity r (toString (pk e))]
      | _ \<Rightarrow> Inl TypeError)"
  by (cases target) (simp_all add: updateEntityCallback_def)

lemma toString_samples: "toString 43 = ''43''" "toString 42 = ''42''"
  by (simp_all add: toString_def nat_toString.simps [of 43] nat_toString.simps [of 42]
      nat_toString.simps [of 4] digit_char_def)

subsection \<open>Publishing the failed checks\<close>

text \<open>
  Claim C1, amended. Whenever an entity is selected, \<open>updateFailedChecks\<close> dispatches
  exactly one action. If the translation record of the active plural form exists, is
  approved or fuzzy, and has an error or a warning, that action is
  \<open>editor.actions.updateFailedChecks\<close> with the record's errors and warnings as \<open>clErrors\<close>
  and \<open>clWarnings\<close>, the three other lists empty, and the source \<open>'stored'\<close>. In every
  other case it is \<open>editor.actions.resetFailedChecks\<close>; in particular for a record with
  errors that is neither approved nor fuzzy. The routine is the first thing
  \<open>componentDidMount\<close> runs, and the first thing \<open>componentDidUpdate\<close> runs on an update
  that passes its test.
\<close>

theorem updateFailedChecks_publishes_or_resets:
  assumes "selectedEntity props = Ref a e"
  shows
    "(activeTranslation (pluralForm props) e = Some t \<and>
      (approved t \<or> fuzzy t) \<and> (errors t \<noteq> [] \<or> warnings t \<noteq> []) \<longrightarrow>
        updateFailedChecks props =
          Inr [editor_actions_updateFailedChecks
                 \<lparr> clErrors = errors t, clWarnings = warnings t, pErrors = [],
                   pndbWarnings = [], ttWarnings = [] \<rparr> ''stored'']) \<and>
     (\<not> (\<exists>t'. activeTranslation (pluralForm props) e = Some t' \<and>
            (approved t' \<or> fuzzy t') \<and> (errors t' \<noteq> [] \<or> warnings t' \<noteq> [])) \<longrightarrow>
        updateFailedChecks props = Inr [editor_actions_resetFailedChecks]) \<and>
     (activeTranslation (pluralForm props) e = Some t \<and>
      errors t \<noteq> [] \<and> \<not> approved t \<and> \<not> fuzzy t \<longrightarrow>
        updateFailedChecks props = Inr [editor_actions_resetFailedChecks]) \<and>
     hd (componentDidMount g props) = (UpdateFailedChecks, updateFailedChecks props) \<and>
     (pluralForm props \<noteq> pluralForm prevProps \<or>
      \<not> strict_eq (selectedEntity props) (selectedEntity prevProps) \<or>
      (strict_eq (selectedEntity props) (nextEntity props) \<and>
       activeTranslationString props \<noteq> activeTranslationString prevProps) \<longrightarrow>
        hd (componentDidUpdate g prevProps props) =
          (UpdateFailedChecks, updateFailedChecks props))"
proof -
  note sel = updateFailedChecks_selected [OF assms]
  have publish: "activeTranslation (pluralForm props) e = Some t \<and>
      (approved t \<or> fuzzy t) \<and> (errors t \<noteq> [] \<or> warnings t \<noteq> []) \<longrightarrow>
        updateFailedChecks props =
          Inr [editor_actions_updateFailedChecks
                 \<lparr> clErrors = errors t, clWarnings = warnings t, pErrors = [],
                   pndbWarnings = [], ttWarnings = [] \<rparr> ''stored'']"
    by (auto simp add: sel)
  have reset: "\<not> (\<exists>t'. activeTranslation (pluralForm props) e = Some t' \<and>
            (approved t' \<or> fuzzy t') \<and> (errors t' \<noteq> [] \<or> warnings t' \<noteq> [])) \<longrightarrow>
        updateFailedChecks props = Inr [editor_actions_resetFailedChecks]"
    by (cases "activeTranslation (pluralForm props) e") (auto simp add: sel)
  have draft: "activeTranslation (pluralForm props) e = Some t \<and>
      errors t \<noteq> [] \<and> \<not> approved t \<and> \<not> fuzzy t \<longrightarrow>
        updateFailedChecks props = Inr [editor_actions_resetFailedChecks]"
    by (auto simp add: sel)
  have mount: "hd (componentDidMount g props) = (UpdateFailedChecks, updateFailedChecks props)"
    by (simp add: componentDidMount_runs_both)
  have update: "pluralForm props \<noteq> pluralForm prevProps \<or>
      \<not> strict_eq (selectedEntity props) (selectedEntity prevProps) \<or>
      (strict_eq (selectedEntity props) (nextEntity props) \<and>
       activeTranslationString props \<noteq> activeTranslationString prevProps) \<longrightarrow>
        hd (componentDidUpdate g prevProps props) =
          (UpdateFailedChecks, updateFailedChecks props)"
    by (simp add: componentDidUpdate_cases)
  from publish reset draft mount update show ?thesis by blast
qed

theorem updateFailedChecks_publishes_or_resets_witness:
  "selectedEntity sampleProps = Ref 1 entity42 \<and>
   activeTranslation (pluralForm sampleProps) entity42 = Some fuzzyTranslation \<and>
   fuzzy fuzzyTranslation \<and> errors fuzzyTranslation = [''Error1''] \<and>
   warnings fuzzyTranslation = [] \<and>
   updateFailedChecks sampleProps =
     Inr [editor_actions_updateFailedChecks
            \<lparr> clErrors = [''Error1''], clWarnings = [], pErrors = [],
              pndbWarnings = [], ttWarnings = [] \<rparr> ''stored''] \<and>
   selectedEntity (sampleProps\<lparr>pluralForm := 1\<rparr>) = Ref 1 entity42 \<and>
   activeTranslation (pluralForm (sampleProps\<lparr>pluralForm := 1\<rparr>)) entity42 =
     Some draftTranslation \<and>
   errors draftTranslation \<noteq> [] \<and> \<not> approved draftTranslation \<and> \<not> fuzzy draftTranslation \<and>
   updateFailedChecks (sampleProps\<lparr>pluralForm := 1\<rparr>) = Inr [editor_actions_resetFailedChecks] \<and>
   pluralForm sampleProps \<noteq> pluralForm (sampleProps\<lparr>pluralForm := 1\<rparr>) \<and>
   hd (componentDidUpdate plainContent (sampleProps\<lparr>pluralForm := 1\<rparr>) sampleProps) =
     (UpdateFailedChecks,
      Inr [editor_actions_updateFailedChecks
            \<lparr> clErrors = [''Error1''], clWarnings = [], pErrors = [],
              pndbWarnings = [], ttWarnings = [] \<rparr> ''stored''])"
proof -
  have sel: "selectedEntity sampleProps = Ref 1 entity42"
    and sel': "selectedEntity (sampleProps\<lparr>pluralForm := 1\<rparr>) = Ref 1 entity42"
    by (simp_all add: sampleProps_def)
  have pf: "pluralForm sampleProps = 0" "pluralForm (sampleProps\<lparr>pluralForm := 1\<rparr>) = 1"
    by (simp_all add: sampleProps_def)
  have tr: "activeTranslation 0 entity42 = Some fuzzyTranslation"
    "activeTranslation 1 entity42 = Some draftTranslation"
    by (simp_all add: activeTranslation_def js_index_def entity42_def)
  have fields: "fuzzy fuzzyTranslation" "errors fuzzyTranslation = [''Error1'']"
    "warnings fuzzyTranslation = []" "errors draftTranslation \<noteq> []"
    "\<not> approved draftTranslation" "\<not> fuzzy draftTranslation"
    by (simp_all add: fuzzyTranslation_def draftTranslation_def)
  show ?thesis
    using updateFailedChecks_publishes_or_resets
        [OF sel, of fuzzyTranslation plainContent "sampleProps\<lparr>pluralForm := 1\<rparr>"]
      updateFailedChecks_publishes_or_resets
        [OF sel', of draftTranslation plainContent sampleProps]
    by (simp add: sel sel' pf tr fields)
qed

text \<open>
  Without the premise that an entity is selected the statement fails: when
  \<open>selectedEntity\<close> is \<open>null\<close> there is no translation record, yet the routine returns at
  line 130 without dispatching the reset, on mount as anywhere else.
\<close>

theorem updateFailedChecks_no_entity_counterexample:
  "selectedEntity (sampleProps\<lparr>selectedEntity := Null\<rparr>) = Null \<and>
   updateFailedChecks (sampleProps\<lparr>selectedEntity := Null\<rparr>) = Inr [] \<and>
   updateFailedChecks (sampleProps\<lparr>selectedEntity := Null\<rparr>) \<noteq>
     Inr [editor_actions_resetFailedChecks] \<and>
   componentDidMount plainContent (sampleProps\<lparr>selectedEntity := Null\<rparr>) =
     [(UpdateFailedChecks, Inr []), (FetchHelpersData, Inr [])]"
  by (simp add: updateFailedChecks_def componentDidMount_def fetchHelpersData_def)

text \<open>
  Claim C8. For a selected entity, the record \<open>updateFailedChecks\<close> reads when the plural
  form is \<open>-1\<close> is the one at index 0 of the entity's \<open>translation\<close> list, and for a plural
  form \<open>n \<ge> 0\<close> it is the one at index \<open>n\<close> (none when the list is that short). So with
  plural form \<open>-1\<close> the routine does what it does with plural form 0, and what it
  dispatches is decided by that record alone.
\<close>

theorem updateFailedChecks_reads_active_plural:
  assumes "selectedEntity props = Ref a e"
  shows
    "activeTranslation (- 1) e =
       (if translation e = [] then None else Some (translation e ! 0)) \<and>
     (0 \<le> n \<longrightarrow>
        activeTranslation n e =
          (if nat n < length (translation e) then Some (translation e ! nat n) else None)) \<and>
     (pluralForm props = - 1 \<longrightarrow>
        updateFailedChecks props = updateFailedChecks (props\<lparr>pluralForm := 0\<rparr>)) \<and>
     updateFailedChecks props =
       (case activeTranslation (pluralForm props) e of
          None \<Rightarrow> Inr [editor_actions_resetFailedChecks]
        | Some t \<Rightarrow>
            if (errors t \<noteq> [] \<or> warnings t \<noteq> []) \<and> (approved t \<or> fuzzy t)
            then Inr [editor_actions_updateFailedChecks
                        \<lparr> clErrors = errors t, clWarnings = warnings t, pErrors = [],
                          pndbWarnings = [], ttWarnings = [] \<rparr> ''stored'']
            else Inr [editor_actions_resetFailedChecks])"
proof -
  have sentinel: "activeTranslation (- 1) e = activeTranslation 0 e"
    by (simp add: activeTranslation_def)
  have index: "0 \<le> n \<Longrightarrow> activeTranslation n e =
      (if nat n < length (translation e) then Some (translation e ! nat n) else None)" for n
    by (simp add: activeTranslation_def js_index_def)
  have first: "activeTranslation (- 1) e =
      (if translation e = [] then None else Some (translation e ! 0))"
    using index [of 0] by (simp add: sentinel)
  have sel': "selectedEntity (props\<lparr>pluralForm := 0\<rparr>) = Ref a e"
    using assms by simp
  have same: "pluralForm props = - 1 \<longrightarrow>
      updateFailedChecks props = updateFailedChecks (props\<lparr>pluralForm := 0\<rparr>)"
    by (simp add: updateFailedChecks_selected [OF assms] updateFailedChecks_selected [OF sel']
        sentinel)
  from first index same updateFailedChecks_selected [OF assms] show ?thesis by simp
qed

theorem updateFailedChecks_reads_active_plural_witness:
  "selectedEntity (sampleProps\<lparr>pluralForm := - 1\<rparr>) = Ref 1 entity42 \<and>
   pluralForm (sampleProps\<lparr>pluralForm := - 1\<rparr>) = - 1 \<and>
   activeTranslation (- 1) entity42 = Some fuzzyTranslation \<and>
   (0::int) \<le> 1 \<and>
   activeTranslation 1 entity42 = Some draftTranslation \<and>
   updateFailedChecks (sampleProps\<lparr>pluralForm := - 1\<rparr>) =
     updateFailedChecks (sampleProps\<lparr>pluralForm := - 1, pluralForm := 0\<rparr>)"
proof -
  have sel: "selectedEntity (sampleProps\<lparr>pluralForm := - 1\<rparr>) = Ref 1 entity42"
    by (simp add: sampleProps_def)
  have tr: "translation entity42 = [fuzzyTranslation, draftTranslation]"
    by (simp add: entity42_def)
  show ?thesis
    using updateFailedChecks_reads_active_plural [OF sel, of 1]
    by (simp add: sel tr)
qed

text \<open>
  Claim C9. When no entity is selected (\<open>selectedEntity\<close> is \<open>undefined\<close> or \<open>null\<close>),
  \<open>updateFailedChecks\<close> returns having dispatched nothing: neither
  \<open>editor.actions.updateFailedChecks\<close> nor \<open>editor.actions.resetFailedChecks\<close>.
\<close>

theorem updateFailedChecks_without_entity:
  assumes "\<not> is_object (selectedEntity props)"
  shows "updateFailedChecks props = Inr []"
  using assms by (simp add: updateFailedChecks_def)

theorem updateFailedChecks_without_entity_witness:
  "\<not> is_object (selectedEntity (sampleProps\<lparr>selectedEntity := Undefined\<rparr>)) \<and>
   updateFailedChecks (sampleProps\<lparr>selectedEntity := Undefined\<rparr>) = Inr [] \<and>
   \<not> is_object (selectedEntity (sampleProps\<lparr>selectedEntity := Null\<rparr>)) \<and>
   updateFailedChecks (sampleProps\<lparr>selectedEntity := Null\<rparr>) = Inr []"
  using updateFailedChecks_without_entity [of "sampleProps\<lparr>selectedEntity := Undefined\<rparr>"]
    updateFailedChecks_without_entity [of "sampleProps\<lparr>selectedEntity := Null\<rparr>"]
  by simp

subsection \<open>When the component refreshes\<close>

text \<open>
  Claim C2. On an update, call it changed when the plural form differs from the previous
  one, or the selected entity is not the object it was, or the selected entity is the
  next entity and the active translation string differs from the previous one. Each of
  \<open>updateFailedChecks\<close> and \<open>fetchHelpersData\<close> runs if and only if the update is changed,
  and then each runs once, in that order; otherwise nothing runs and nothing is
  dispatched. In particular nothing runs when the plural form, the selected entity and
  the active translation string are what they were, whatever else differs. On mount
  both routines run once.
\<close>

theorem componentDidUpdate_refreshes_iff_changed:
  "(let changed =
      (pluralForm props \<noteq> pluralForm prevProps \<or>
       \<not> strict_eq (selectedEntity props) (selectedEntity prevProps) \<or>
       (strict_eq (selectedEntity props) (nextEntity props) \<and>
        activeTranslationString props \<noteq> activeTranslationString prevProps))
    in
      (UpdateFailedChecks \<in> fst ` set (componentDidUpdate g prevProps props) \<longleftrightarrow> changed) \<and>
      (FetchHelpersData \<in> fst ` set (componentDidUpdate g prevProps props) \<longleftrightarrow> changed) \<and>
      (changed \<longrightarrow>
         componentDidUpdate g prevProps props =
           [(UpdateFailedChecks, updateFailedChecks props),
            (FetchHelpersData, fetchHelpersData g props)]) \<and>
      (\<not> changed \<longrightarrow> componentDidUpdate g prevProps props = [])) \<and>
   (pluralForm props = pluralForm prevProps \<and>
    selectedEntity props = selectedEntity prevProps \<and>
    activeTranslationString props = activeTranslationString prevProps \<longrightarrow>
      componentDidUpdate g prevProps props = []) \<and>
   componentDidMount g props =
     [(UpdateFailedChecks, updateFailedChecks props),
      (FetchHelpersData, fetchHelpersData g props)]"
proof (cases "pluralForm props \<noteq> pluralForm prevProps \<or>
       \<not> strict_eq (selectedEntity props) (selectedEntity prevProps) \<or>
       (strict_eq (selectedEntity props) (nextEntity props) \<and>
        activeTranslationString props \<noteq> activeTranslationString prevProps)")
  case True
  then have run: "componentDidUpdate g prevProps props =
      [(UpdateFailedChecks, updateFailedChecks props),
       (FetchHelpersData, fetchHelpersData g props)]"
    by (simp only: componentDidUpdate_cases if_True)
  from True have "\<not> (pluralForm props = pluralForm prevProps \<and>
      selectedEntity props = selectedEntity prevProps \<and>
      activeTranslationString props = activeTranslationString prevProps)"
    using strict_eq_same [of "selectedEntity prevProps"] by auto
  with True run show ?thesis
    by (simp add: Let_def componentDidMount_runs_both)
next
  case False
  then have "componentDidUpdate g prevProps props = []"
    by (simp only: componentDidUpdate_cases if_False)
  with False show ?thesis
    by (simp add: Let_def componentDidMount_runs_both)
qed

theorem componentDidUpdate_refreshes_iff_changed_witness:
  "pluralForm sampleProps \<noteq> pluralForm (sampleProps\<lparr>pluralForm := 1\<rparr>) \<and>
   componentDidUpdate plainContent (sampleProps\<lparr>pluralForm := 1\<rparr>) sampleProps =
     [(UpdateFailedChecks, updateFailedChecks sampleProps),
      (FetchHelpersData, fetchHelpersData plainContent sampleProps)] \<and>
   \<not> strict_eq (selectedEntity sampleProps)
       (selectedEntity (sampleProps\<lparr>selectedEntity := Ref 2 entity43\<rparr>)) \<and>
   UpdateFailedChecks \<in> fst ` set (componentDidUpdate plainContent
       (sampleProps\<lparr>selectedEntity := Ref 2 entity43\<rparr>) sampleProps) \<and>
   FetchHelpersData \<in> fst ` set (componentDidUpdate plainContent
       (sampleProps\<lparr>selectedEntity := Ref 2 entity43\<rparr>) sampleProps) \<and>
   strict_eq (selectedEntity (sampleProps\<lparr>nextEntity := Ref 1 entity42\<rparr>))
       (nextEntity (sampleProps\<lparr>nextEntity := Ref 1 entity42\<rparr>)) \<and>
   activeTranslationString (sampleProps\<lparr>nextEntity := Ref 1 entity42\<rparr>) \<noteq>
     activeTranslationString
       (sampleProps\<lparr>nextEntity := Ref 1 entity42, activeTranslationString := ''old''\<rparr>) \<and>
   componentDidUpdate plainContent
       (sampleProps\<lparr>nextEntity := Ref 1 entity42, activeTranslationString := ''old''\<rparr>)
       (sampleProps\<lparr>nextEntity := Ref 1 entity42\<rparr>) =
     [(UpdateFailedChecks, updateFailedChecks (sampleProps\<lparr>nextEntity := Ref 1 entity42\<rparr>)),
      (FetchHelpersData,
       fetchHelpersData plainContent (sampleProps\<lparr>nextEntity := Ref 1 entity42\<rparr>))] \<and>
   pluralForm sampleProps = pluralForm (sampleProps\<lparr>isTranslator := False\<rparr>) \<and>
   selectedEntity sampleProps = selectedEntity (sampleProps\<lparr>isTranslator := False\<rparr>) \<and>
   activeTranslationString sampleProps =
     activeTranslationString (sampleProps\<lparr>isTranslator := False\<rparr>) \<and>
   isTranslator sampleProps \<noteq> isTranslator (sampleProps\<lparr>isTranslator := False\<rparr>) \<and>
   componentDidUpdate plainContent (sampleProps\<lparr>isTranslator := False\<rparr>) sampleProps = [] \<and>
   \<not> strict_eq (selectedEntity sampleProps) (nextEntity sampleProps) \<and>
   activeTranslationString sampleProps \<noteq>
     activeTranslationString (sampleProps\<lparr>activeTranslationString := ''old''\<rparr>) \<and>
   componentDidUpdate plainContent
     (sampleProps\<lparr>activeTranslationString := ''old''\<rparr>) sampleProps = []"
proof -
  have vals: "pluralForm sampleProps = 0" "selectedEntity sampleProps = Ref 1 entity42"
    "nextEntity sampleProps = Ref 2 entity43" "activeTranslationString sampleProps = ''test''"
    "isTranslator sampleProps"
    by (simp_all add: sampleProps_def)
  show ?thesis
    using componentDidUpdate_refreshes_iff_changed
        [of sampleProps "sampleProps\<lparr>pluralForm := 1\<rparr>" plainContent]
      componentDidUpdate_refreshes_iff_changed
        [of sampleProps "sampleProps\<lparr>selectedEntity := Ref 2 entity43\<rparr>" plainContent]
      componentDidUpdate_refreshes_iff_changed
        [of "sampleProps\<lparr>nextEntity := Ref 1 entity42\<rparr>"
          "sampleProps\<lparr>nextEntity := Ref 1 entity42, activeTranslationString := ''old''\<rparr>"
          plainContent]
      componentDidUpdate_refreshes_iff_changed
        [of sampleProps "sampleProps\<lparr>isTranslator := False\<rparr>" plainContent]
      componentDidUpdate_refreshes_iff_changed
        [of sampleProps "sampleProps\<lparr>activeTranslationString := ''old''\<rparr>" plainContent]
    by (simp add: vals Let_def)
qed

subsection \<open>Fetching the helpers' data\<close>

text \<open>
  Claim C4. When \<open>parameters.entity\<close> is missing or zero, or no entity is selected, or
  there is no locale, \<open>fetchHelpersData\<close> returns normally and has dispatched nothing: no
  history, other-locales or machinery action, and no exception.
\<close>

theorem fetchHelpersData_skips_silently:
  assumes "\<not> truthy_number (NavigationParams.entity (parameters props)) \<or>
           \<not> is_object (selectedEntity props) \<or> locale' props = None"
  shows "fetchHelpersData g props = Inr []"
  using assms by (auto simp add: fetchHelpersData_def)

theorem fetchHelpersData_skips_silently_witness:
  "\<not> truthy_number (NavigationParams.entity
        (parameters (sampleProps\<lparr>history := \<lparr>HistoryState.entity = None, pluralForm = None\<rparr>,
          parameters := (parameters sampleProps)\<lparr>NavigationParams.entity := Some 0\<rparr>\<rparr>))) \<and>
   fetchHelpersData plainContent
     (sampleProps\<lparr>history := \<lparr>HistoryState.entity = None, pluralForm = None\<rparr>,
        parameters := (parameters sampleProps)\<lparr>NavigationParams.entity := Some 0\<rparr>\<rparr>) = Inr [] \<and>
   \<not> is_object (selectedEntity
        (sampleProps\<lparr>history := \<lparr>HistoryState.entity = None, pluralForm = None\<rparr>,
          selectedEntity := Undefined\<rparr>)) \<and>
   fetchHelpersData plainContent
     (sampleProps\<lparr>history := \<lparr>HistoryState.entity = None, pluralForm = None\<rparr>,
        selectedEntity := Undefined\<rparr>) = Inr [] \<and>
   locale' (sampleProps\<lparr>history := \<lparr>HistoryState.entity = None, pluralForm = None\<rparr>,
        locale' := None\<rparr>) = None \<and>
   fetchHelpersData plainContent
     (sampleProps\<lparr>history := \<lparr>HistoryState.entity = None, pluralForm = None\<rparr>,
        locale' := None\<rparr>) = Inr []"
  using fetchHelpersData_skips_silently
      [of "sampleProps\<lparr>history := \<lparr>HistoryState.entity = None, pluralForm = None\<rparr>,
          parameters := (parameters sampleProps)\<lparr>NavigationParams.entity := Some 0\<rparr>\<rparr>"
        plainContent]
    fetchHelpersData_skips_silently
      [of "sampleProps\<lparr>history := \<lparr>HistoryState.entity = None, pluralForm = None\<rparr>,
          selectedEntity := Undefined\<rparr>" plainContent]
    fetchHelpersData_skips_silently
      [of "sampleProps\<lparr>history := \<lparr>HistoryState.entity = None, pluralForm = None\<rparr>,
          locale' := None\<rparr>" plainContent]
  by simp

text \<open>
  Claim C5. Let \<open>parameters.entity\<close> be present and not zero, an entity be selected and a
  locale be there. Call the history stale when \<open>history.entity\<close> is not the selected
  entity's \<open>pk\<close>, or \<open>history.pluralForm\<close> is not the plural form, or the selected entity is
  the next entity. Then \<open>fetchHelpersData\<close> returns normally, and it has dispatched
  \<open>history.actions.request\<close> and \<open>history.actions.get\<close> for \<open>parameters.entity\<close> (and
  \<open>parameters.locale\<close>) and the plural form if and only if the history is stale: when it
  is, they are the first two actions, in that order; when it is not, no history request
  or get of any kind has been dispatched.
\<close>

theorem fetchHelpersData_history_iff_stale:
  assumes "truthy_number (NavigationParams.entity (parameters props))"
    and "selectedEntity props = Ref a e"
    and "locale' props = Some l"
  shows "\<exists>actions. fetchHelpersData g props = Inr actions \<and>
    (let stale =
       (Some (pk e) \<noteq> HistoryState.entity (history props) \<or>
        Some (pluralForm props) \<noteq> HistoryState.pluralForm (history props) \<or>
        strict_eq (selectedEntity props) (nextEntity props));
         request =
           history_actions_request (NavigationParams.entity (parameters props)) (pluralForm props);
         get =
           history_actions_get (NavigationParams.entity (parameters props))
             (NavigationParams.locale' (parameters props)) (pluralForm props)
     in (request \<in> set actions \<longleftrightarrow> stale) \<and>
        (get \<in> set actions \<longleftrightarrow> stale) \<and>
        (stale \<longrightarrow> take 2 actions = [request, get]) \<and>
        (\<not> stale \<longrightarrow>
           (\<forall>x y. history_actions_request x y \<notin> set actions) \<and>
           (\<forall>x y z. history_actions_get x y z \<notin> set actions)))"
  unfolding fetchHelpersData_ready [OF assms] Let_def
  by simp

theorem fetchHelpersData_history_iff_stale_witness:
  "truthy_number (NavigationParams.entity (parameters sampleProps)) \<and>
   selectedEntity sampleProps = Ref 1 entity42 \<and>
   locale' sampleProps = Some ''kg'' \<and>
   (\<exists>actions. fetchHelpersData plainContent sampleProps = Inr actions \<and>
      history_actions_request (Some 42) 0 \<notin> set actions \<and>
      history_actions_get (Some 42) ''kg'' 0 \<notin> set actions) \<and>
   (\<exists>actions.
      fetchHelpersData plainContent
        (sampleProps\<lparr>history := \<lparr>HistoryState.entity = Some 41, pluralForm = Some 0\<rparr>\<rparr>) =
        Inr actions \<and>
      take 2 actions =
        [history_actions_request (Some 42) 0, history_actions_get (Some 42) ''kg'' 0]) \<and>
   (\<exists>actions. fetchHelpersData plainContent (sampleProps\<lparr>pluralForm := 1\<rparr>) = Inr actions \<and>
      take 2 actions =
        [history_actions_request (Some 42) 1, history_actions_get (Some 42) ''kg'' 1]) \<and>
   (\<exists>actions.
      fetchHelpersData plainContent (sampleProps\<lparr>nextEntity := Ref 1 entity42\<rparr>) = Inr actions \<and>
      take 2 actions =
        [history_actions_request (Some 42) 0, history_actions_get (Some 42) ''kg'' 0])"
proof -
  have vals: "NavigationParams.entity (parameters sampleProps) = Some 42"
    "NavigationParams.locale' (parameters sampleProps) = ''kg''"
    "selectedEntity sampleProps = Ref 1 entity42" "locale' sampleProps = Some ''kg''"
    "pluralForm sampleProps = 0" "nextEntity sampleProps = Ref 2 entity43"
    "history sampleProps = \<lparr>HistoryState.entity = Some 42, pluralForm = Some 0\<rparr>"
    "pk entity42 = 42"
    by (simp_all add: sampleProps_def entity42_def)
  show ?thesis
    using fetchHelpersData_history_iff_stale
        [of sampleProps 1 entity42 "''kg''" plainContent]
      fetchHelpersData_history_iff_stale
        [of "sampleProps\<lparr>history := \<lparr>HistoryState.entity = Some 41, pluralForm = Some 0\<rparr>\<rparr>"
          1 entity42 "''kg''" plainContent]
      fetchHelpersData_history_iff_stale
        [of "sampleProps\<lparr>pluralForm := 1\<rparr>" 1 entity42 "''kg''" plainContent]
      fetchHelpersData_history_iff_stale
        [of "sampleProps\<lparr>nextEntity := Ref 1 entity42\<rparr>" 1 entity42 "''kg''" plainContent]
    by (simp add: vals Let_def) blast
qed

text \<open>
  Claim C6. Under the same three conditions, \<open>fetchHelpersData\<close> has dispatched
  \<open>otherlocales.actions.get\<close> for \<open>parameters.entity\<close> and \<open>parameters.locale\<close> if and only if
  \<open>otherlocales.entity\<close> is not the selected entity's \<open>pk\<close>, and it has dispatched
  \<open>machinery.actions.get\<close> if and only if \<open>machinery.entity\<close> is not the selected entity's
  \<open>pk\<close>. The only machinery request it ever dispatches has as source
  \<open>getOptimizedContent\<close> of the entity's \<open>machinery_original\<close> and \<open>format\<close>, the locale, and
  the entity's \<open>pk\<close> as key.
\<close>

theorem fetchHelpersData_otherlocales_machinery_iff_stale:
  assumes "truthy_number (NavigationParams.entity (parameters props))"
    and "selectedEntity props = Ref a e"
    and "locale' props = Some l"
  shows "\<exists>actions. fetchHelpersData g props = Inr actions \<and>
    (otherlocales_actions_get (NavigationParams.entity (parameters props))
        (NavigationParams.locale' (parameters props)) \<in> set actions \<longleftrightarrow>
       Some (pk e) \<noteq> LocalesState.entity (otherlocales props)) \<and>
    (Some (pk e) = LocalesState.entity (otherlocales props) \<longrightarrow>
       (\<forall>x y. otherlocales_actions_get x y \<notin> set actions)) \<and>
    (machinery_actions_get (g (machinery_original e) (format e)) (Some l) (Some (pk e))
        \<in> set actions \<longleftrightarrow>
       Some (pk e) \<noteq> MachineryState.entity (machinery props)) \<and>
    (\<forall>source l' key. machinery_actions_get source l' key \<in> set actions \<longrightarrow>
       Some (pk e) \<noteq> MachineryState.entity (machinery props) \<and>
       source = g (machinery_original e) (format e) \<and> l' = Some l \<and> key = Some (pk e))"
  unfolding fetchHelpersData_ready [OF assms]
  by simp

theorem fetchHelpersData_otherlocales_machinery_iff_stale_witness:
  "truthy_number (NavigationParams.entity (parameters sampleProps)) \<and>
   selectedEntity sampleProps = Ref 1 entity42 \<and>
   locale' sampleProps = Some ''kg'' \<and>
   (\<exists>actions. fetchHelpersData plainContent sampleProps = Inr actions \<and>
      otherlocales_actions_get (Some 42) ''kg'' \<notin> set actions \<and>
      machinery_actions_get ''le test'' (Some ''kg'') (Some 42) \<notin> set actions) \<and>
   (\<exists>actions.
      fetchHelpersData plainContent
        (sampleProps\<lparr>otherlocales := \<lparr>LocalesState.entity = None\<rparr>,
           machinery := \<lparr>MachineryState.entity = Some 41\<rparr>\<rparr>) = Inr actions \<and>
      otherlocales_actions_get (Some 42) ''kg'' \<in> set actions \<and>
      machinery_actions_get ''le test'' (Some ''kg'') (Some 42) \<in> set actions)"
proof -
  have vals: "NavigationParams.entity (parameters sampleProps) = Some 42"
    "NavigationParams.locale' (parameters sampleProps) = ''kg''"
    "selectedEntity sampleProps = Ref 1 entity42" "locale' sampleProps = Some ''kg''"
    "otherlocales sampleProps = \<lparr>LocalesState.entity = Some 42\<rparr>"
    "machinery sampleProps = \<lparr>MachineryState.entity = Some 42\<rparr>"
    "pk entity42 = 42" "machinery_original entity42 = ''le test''"
    by (simp_all add: sampleProps_def entity42_def)
  show ?thesis
    using fetchHelpersData_otherlocales_machinery_iff_stale
        [of sampleProps 1 entity42 "''kg''" plainContent]
      fetchHelpersData_otherlocales_machinery_iff_stale
        [of "sampleProps\<lparr>otherlocales := \<lparr>LocalesState.entity = None\<rparr>,
           machinery := \<lparr>MachineryState.entity = Some 41\<rparr>\<rparr>" 1 entity42 "''kg''" plainContent]
    by (simp add: vals plainContent_def) blast
qed

subsection \<open>Searching the machinery\<close>

text \<open>
  Claim C3. \<open>searchMachinery\<close> with a non-empty query dispatches one
  \<open>machinery.actions.get\<close> whose source is the query and whose entity key is \<open>null\<close>. With
  the empty query and a selected entity, the source is the entity's \<open>original\<close> and the
  key is the entity's \<open>pk\<close>.
\<close>

theorem searchMachinery_source_and_key:
  "(query \<noteq> [] \<longrightarrow>
      searchMachinery props query = Inr [machinery_actions_get query (locale' props) None]) \<and>
   (query = [] \<and> selectedEntity props = Ref a e \<longrightarrow>
      searchMachinery props query =
        Inr [machinery_actions_get (original e) (locale' props) (Some (pk e))])"
  by (simp add: searchMachinery_def)

theorem searchMachinery_source_and_key_witness:
  "''bonjour'' \<noteq> [] \<and>
   searchMachinery sampleProps ''bonjour'' =
     Inr [machinery_actions_get ''bonjour'' (Some ''kg'') None] \<and>
   selectedEntity sampleProps = Ref 1 entity42 \<and>
   searchMachinery sampleProps [] =
     Inr [machinery_actions_get ''le test'' (Some ''kg'') (Some 42)]"
proof -
  have vals: "selectedEntity sampleProps = Ref 1 entity42" "locale' sampleProps = Some ''kg''"
    "original entity42 = ''le test''" "pk entity42 = 42"
    by (simp_all add: sampleProps_def entity42_def)
  show ?thesis
    using searchMachinery_source_and_key [of "''bonjour''" sampleProps 1 entity42]
      searchMachinery_source_and_key [of "[]" sampleProps 1 entity42]
    by (simp add: vals)
qed

text \<open>
  Claim C10. \<open>searchMachinery\<close> with the empty query and no selected entity still
  dispatches one \<open>machinery.actions.get\<close>: its source is the empty string and its entity
  key is \<open>null\<close>.
\<close>

theorem searchMachinery_empty_query_no_entity:
  assumes "\<not> is_object (selectedEntity props)"
  shows "searchMachinery props [] = Inr [machinery_actions_get [] (locale' props) None]"
  using assms by (simp add: searchMachinery_def)

theorem searchMachinery_empty_query_no_entity_witness:
  "\<not> is_object (selectedEntity (sampleProps\<lparr>selectedEntity := Null\<rparr>)) \<and>
   searchMachinery (sampleProps\<lparr>selectedEntity := Null\<rparr>) [] =
     Inr [machinery_actions_get [] (Some ''kg'') None]"
proof -
  have "locale' (sampleProps\<lparr>selectedEntity := Null\<rparr>) = Some ''kg''"
    by (simp add: sampleProps_def)
  then show ?thesis
    using searchMachinery_empty_query_no_entity [of "sampleProps\<lparr>selectedEntity := Null\<rparr>"]
    by simp
qed

subsection \<open>Leaving the entity\<close>

text \<open>
  Claim C7. Each of \<open>goToNextEntity\<close>, \<open>goToPreviousEntity\<close>, \<open>navigateToPath\<close> and
  \<open>updateTranslationStatus\<close> dispatches exactly one action itself:
  \<open>unsavedchanges.actions.check\<close> with the current \<open>unsavedchanges\<close> state and a callback.
  The navigation update, the route push or the status update is what that callback
  dispatches when it is run; the handler dispatches none of them itself. (The callback of
  the first two raises when there is no such neighbour.)
\<close>

theorem navigation_goes_through_unsavedchanges_check:
  "goToNextEntity props =
     Inr [unsavedchanges_actions_check (unsavedchanges props)
            (case nextEntity props of
               Ref a e \<Rightarrow> Inr [navigation_actions_updateEntity (router props) (toString (pk e))]
             | _ \<Rightarrow> Inl TypeError)] \<and>
   goToPreviousEntity props =
     Inr [unsavedchanges_actions_check (unsavedchanges props)
            (case previousEntity props of
               Ref a e \<Rightarrow> Inr [navigation_actions_updateEntity (router props) (toString (pk e))]
             | _ \<Rightarrow> Inl TypeError)] \<and>
   navigateToPath props path =
     Inr [unsavedchanges_actions_check (unsavedchanges props) (Inr [push path])] \<and>
   updateTranslationStatus props translationId change =
     Inr [unsavedchanges_actions_check (unsavedchanges props)
            (Inr [history_actions_updateStatus change (selectedEntity props) (locale' props)
                    (NavigationParams.resource (parameters props)) (pluralForm props)
                    translationId (nextEntity props) (router props)])] \<and>
   (\<forall>actions \<in> {goToNextEntity props, goToPreviousEntity props, navigateToPath props path,
                 updateTranslationStatus props translationId change}.
      \<exists>callback. actions = Inr [unsavedchanges_actions_check (unsavedchanges props) callback])"
  by (simp add: goToNextEntity_def goToPreviousEntity_def navigateToPath_def
      updateTranslationStatus_def updateEntityCallback_cases)

theorem navigation_goes_through_unsavedchanges_check_witness:
  "unsavedchanges sampleProps = True \<and>
   goToNextEntity sampleProps =
     Inr [unsavedchanges_actions_check True
            (Inr [navigation_actions_updateEntity ''/kg/pro/all/'' ''43''])] \<and>
   goToPreviousEntity (sampleProps\<lparr>previousEntity := Null\<rparr>) =
     Inr [unsavedchanges_actions_check True (Inl TypeError)] \<and>
   navigateToPath sampleProps ''/kg/pro/all/?string=7'' =
     Inr [unsavedchanges_actions_check True (Inr [push ''/kg/pro/all/?string=7''])] \<and>
   updateTranslationStatus sampleProps 5 ''approve'' =
     Inr [unsavedchanges_actions_check True
            (Inr [history_actions_updateStatus ''approve'' (Ref 1 entity42) (Some ''kg'')
                    ''all'' 0 5 (Ref 2 entity43) ''/kg/pro/all/''])]"
proof -
  have vals: "unsavedchanges sampleProps = True" "nextEntity sampleProps = Ref 2 entity43"
    "router sampleProps = ''/kg/pro/all/''" "selectedEntity sampleProps = Ref 1 entity42"
    "locale' sampleProps = Some ''kg''" "pluralForm sampleProps = 0"
    "NavigationParams.resource (parameters sampleProps) = ''all''" "pk entity43 = 43"
    by (simp_all add: sampleProps_def entity43_def)
  show ?thesis
    using navigation_goes_through_unsavedchanges_check
        [of sampleProps "''/kg/pro/all/?string=7''" 5 "''approve''"]
      navigation_goes_through_unsavedchanges_check
        [of "sampleProps\<lparr>previousEntity := Null\<rparr>" "''/kg/pro/all/?string=7''" 5 "''approve''"]
    by (simp add: vals toString_samples)
qed

end
